theory Spec2Isabelle
  imports Complex_Main
begin

section \<open>The profile analyser of \<^verbatim>\<open>vpc_profile_analyzer.py\<close>\<close>

text \<open>
  The development embeds the host-independent part of \<^verbatim>\<open>VPCProfileAnalyzer\<close>:
  \<^verbatim>\<open>get_profile_line\<close>, \<^verbatim>\<open>extract_profile_points\<close>, \<^verbatim>\<open>analyze_points\<close>,
  \<^verbatim>\<open>compute_basic_statistics\<close>, \<^verbatim>\<open>compute_terrain_analysis\<close> and
  \<^verbatim>\<open>compute_roughness_analysis\<close>. Python floats are read as real numbers, so
  rounding is not modelled; the two places where float arithmetic has no real value
  (a float division by zero, a fit on a design matrix with a zero column) are
  branches of the model.
\<close>

subsection \<open>Exceptions that the embedded code can raise\<close>

datatype py_error =
    KeyError string
  | ZeroDivisionError
  | ValueError
  | LinAlgError

subsection \<open>The dataclass \<^verbatim>\<open>ProfilePoint\<close>\<close>

text \<open>
  The fields \<^verbatim>\<open>x\<close>, \<^verbatim>\<open>y\<close>, \<^verbatim>\<open>z\<close> carry the prefix \<open>pt_\<close>; the others keep
  their names. An \<^verbatim>\<open>Optional\<close> field is an \<open>option\<close>.
\<close>

record ProfilePoint =
  pt_x :: real
  pt_y :: real
  pt_z :: real
  distance :: real
  intensity :: "real option"
  classification :: "int option"
  rgb :: "(int \<times> int \<times> int) option"
  original_coords :: "(real \<times> real \<times> real) option"

subsection \<open>Python and NumPy aggregates\<close>

text \<open>
  Python's \<^verbatim>\<open>min\<close> and \<^verbatim>\<open>max\<close> raise \<^verbatim>\<open>ValueError\<close> on an empty list. They are
  given the first element and the rest, so they are only ever applied to a
  non-empty list; the caller's guard \<^verbatim>\<open>... if xs else 0\<close> is the \<open>case\<close> on the list.
\<close>

definition py_min :: "real \<Rightarrow> real list \<Rightarrow> real" where
  "py_min v vs = fold min vs v"

definition py_max :: "real \<Rightarrow> real list \<Rightarrow> real" where
  "py_max v vs = fold max vs v"

text \<open>
  \<^verbatim>\<open>np.mean\<close> is the sum over the number of elements and \<^verbatim>\<open>np.std\<close> the square
  root of the mean of the squared deviations from the mean (the population standard
  deviation, \<^verbatim>\<open>ddof = 0\<close>). On an empty array NumPy gives \<^verbatim>\<open>nan\<close>; every call
  below stands under a guard that the list is not empty.
\<close>

definition np_mean :: "real list \<Rightarrow> real" where
  "np_mean a = sum_list a / real (length a)"

definition np_std :: "real list \<Rightarrow> real" where
  "np_std a = sqrt (np_mean (map (\<lambda>v. (abs (v - np_mean a))\<^sup>2) a))"

subsection \<open>\<^verbatim>\<open>compute_basic_statistics\<close>\<close>

text \<open>
  The result dictionary has the keys \<^verbatim>\<open>point_count\<close>, \<^verbatim>\<open>profile_length\<close>,
  \<^verbatim>\<open>elevation_stats\<close> and, only when some intensity is present,
  \<^verbatim>\<open>intensity_stats\<close>; the optional key is an \<open>option\<close>. The two inner dictionaries
  are maps from their string keys. The empty dictionary \<^verbatim>\<open>{}\<close> returned for an
  empty point list is \<open>None\<close>.
\<close>

type_synonym stats_dict = "string \<rightharpoonup> real"

record basic_stats =
  point_count :: nat
  profile_length :: real
  elevation_stats :: stats_dict
  intensity_stats :: "stats_dict option"

definition compute_basic_statistics :: "ProfilePoint list \<Rightarrow> basic_stats option" where
  "compute_basic_statistics profile_points =
     (if profile_points = [] then None
      else
        let elevations = map pt_z profile_points;
            distances = map distance profile_points;
            intensities = map (the \<circ> intensity)
                            (filter (\<lambda>p. intensity p \<noteq> None) profile_points)
        in Some \<lparr>
             point_count = length profile_points,
             profile_length =
               (case distances of [] \<Rightarrow> 0 | d # ds \<Rightarrow> py_max d ds - py_min d ds),
             elevation_stats = Map.empty(
               ''min'' \<mapsto> (case elevations of [] \<Rightarrow> 0 | e # es \<Rightarrow> py_min e es),
               ''max'' \<mapsto> (case elevations of [] \<Rightarrow> 0 | e # es \<Rightarrow> py_max e es),
               ''mean'' \<mapsto> (if elevations \<noteq> [] then np_mean elevations else 0),
               ''std'' \<mapsto> (if elevations \<noteq> [] then np_std elevations else 0),
               ''range'' \<mapsto>
                 (case elevations of [] \<Rightarrow> 0 | e # es \<Rightarrow> py_max e es - py_min e es)),
             intensity_stats =
               (case intensities of
                  [] \<Rightarrow> None
                | i # is \<Rightarrow> Some (Map.empty(
                    ''min'' \<mapsto> py_min i is,
                    ''max'' \<mapsto> py_max i is,
                    ''mean'' \<mapsto> np_mean intensities,
                    ''std'' \<mapsto> np_std intensities)))
           \<rparr>)"

subsection \<open>\<^verbatim>\<open>compute_terrain_analysis\<close>\<close>

definition degrees :: "real \<Rightarrow> real" where
  "degrees r = r * (180 / pi)"

record terrain_stats =
  slopes :: "real list"
  mean_slope :: real
  max_slope :: real
  min_slope :: real
  slope_std :: real

text \<open>
  The loop \<^verbatim>\<open>for i in range(1, len(self.profile_points))\<close>, with the list
  \<^verbatim>\<open>slopes\<close> it appends to as accumulator.
\<close>

function slopes_loop :: "ProfilePoint list \<Rightarrow> nat \<Rightarrow> real list \<Rightarrow> real list" where
  "slopes_loop ps i acc =
     (if i < length ps then
        let p1 = ps ! (i - 1); p2 = ps ! i in
        if distance p2 \<noteq> distance p1 then
          let slope = (pt_z p2 - pt_z p1) / (distance p2 - distance p1)
          in slopes_loop ps (i + 1) (acc @ [degrees (arctan slope)])
        else slopes_loop ps (i + 1) acc
      else acc)"
  by pat_completeness auto
termination
  by (relation "measure (\<lambda>(ps, i, acc). length ps - i)") auto

declare slopes_loop.simps [simp del]

definition compute_terrain_analysis :: "ProfilePoint list \<Rightarrow> terrain_stats option" where
  "compute_terrain_analysis profile_points =
     (if length profile_points < 3 then None
      else
        let sl = slopes_loop profile_points 1 []
        in Some \<lparr>
             slopes = sl,
             mean_slope = (if sl \<noteq> [] then np_mean sl else 0),
             max_slope = (case sl of [] \<Rightarrow> 0 | s # ss \<Rightarrow> py_max s ss),
             min_slope = (case sl of [] \<Rightarrow> 0 | s # ss \<Rightarrow> py_min s ss),
             slope_std = (if sl \<noteq> [] then np_std sl else 0)
           \<rparr>)"

text \<open>
  The slope sequence in the words of the specification: one angle for each
  consecutive pair with unequal distances, in sequence order.
\<close>

definition slope_angle :: "ProfilePoint \<Rightarrow> ProfilePoint \<Rightarrow> real" where
  "slope_angle p q = arctan ((pt_z q - pt_z p) / (distance q - distance p)) * 180 / pi"

definition spec_slopes :: "ProfilePoint list \<Rightarrow> real list" where
  "spec_slopes ps =
     map (\<lambda>i. slope_angle (ps ! (i - 1)) (ps ! i))
       (filter (\<lambda>i. distance (ps ! i) \<noteq> distance (ps ! (i - 1))) [1..<length ps])"

subsection \<open>\<^verbatim>\<open>compute_roughness_analysis\<close>\<close>

text \<open>
  \<^verbatim>\<open>np.polyfit(x, y, 1)\<close> builds the design matrix with the columns \<open>x\<close> and \<open>1\<close>,
  divides each column by its Euclidean norm, solves the least-squares problem with
  \<^verbatim>\<open>lstsq(lhs, rhs, rcond)\<close>, where \<^verbatim>\<open>rcond = len(x) * finfo(x.dtype).eps\<close>, and
  divides the solution by the norms again. \<^verbatim>\<open>lstsq\<close> treats a singular value that is
  at most \<^verbatim>\<open>rcond\<close> times the largest one as zero and then returns the solution of
  least norm. The machine epsilon of a double is \<open>1 / 2 ^ 52\<close>.

  With \<open>n\<close> the number of points, \<open>sx\<close>, \<open>sy\<close>, \<open>sxx\<close>, \<open>sxy\<close> the sums of \<open>x\<close>, \<open>y\<close>,
  \<open>x * x\<close>, \<open>x * y\<close>, and \<open>m = sqrt (n * sxx)\<close> the product of the two column norms:
  \<^item> when all of \<open>x\<close> is zero the first column has norm 0, the scaled matrix has no
    value (NumPy: \<^verbatim>\<open>nan\<close>) and \<^verbatim>\<open>lstsq\<close> raises \<^verbatim>\<open>LinAlgError\<close>;
  \<^item> otherwise the scaled columns are unit vectors with inner product
    \<open>rho = sx / m\<close>, and the singular values of the scaled matrix are
    \<open>sqrt (1 + \<bar>rho\<bar>)\<close> and \<open>sqrt (1 - \<bar>rho\<bar>)\<close>;
  \<^item> when the smaller one is at most \<open>rcond\<close> times the larger one (the distances
    are all equal, or nearly so for their size) the rank is taken as 1, and the
    least-norm solution, divided by the column norms, is the pair in the first
    branch below (with a warning only); for distances that are all equal to \<open>c\<close>
    it is slope \<open>mean y / (2 * c)\<close> and intercept \<open>mean y / 2\<close>;
  \<^item> otherwise the solution is the unique one of the normal equations.
  The result is the pair (slope, intercept), \<^verbatim>\<open>coeffs[0]\<close> and \<^verbatim>\<open>coeffs[1]\<close>.
  Rounding inside these steps is not modelled.
\<close>

definition float_eps :: real where
  "float_eps = 1 / 2 ^ 52"

definition polyfit1 :: "real list \<Rightarrow> real list \<Rightarrow> py_error + real \<times> real" where
  "polyfit1 x y =
     (let n = real (length x);
          sx = sum_list x;
          sy = sum_list y;
          sxx = sum_list (map (\<lambda>u. u * u) x);
          sxy = sum_list (map (\<lambda>(u, v). u * v) (zip x y));
          rcond = n * float_eps
      in if sxx = 0 then Inl LinAlgError
         else
           let m = sqrt (n * sxx);
               rho = sx / m;
               s_max = sqrt (1 + \<bar>rho\<bar>);
               s_min = sqrt (1 - \<bar>rho\<bar>)
           in if s_min \<le> rcond * s_max
              then Inr ((sxy / sxx + sgn rho * sy / m) / (2 * (1 + \<bar>rho\<bar>)),
                        (sgn rho * sxy / m + sy / n) / (2 * (1 + \<bar>rho\<bar>)))
              else Inr ((n * sxy - sx * sy) / (n * sxx - sx * sx),
                        (sy * sxx - sx * sxy) / (n * sxx - sx * sx)))"

text \<open>
  The fit keeps both singular values: the distances are not all zero and the
  smaller singular value of the scaled design matrix exceeds \<^verbatim>\<open>rcond\<close> times the
  larger one.
\<close>

definition full_rank :: "real list \<Rightarrow> bool" where
  "full_rank x =
     (let n = real (length x);
          sx = sum_list x;
          sxx = sum_list (map (\<lambda>u. u * u) x);
          rho = sx / sqrt (n * sxx)
      in sxx \<noteq> 0 \<and> n * float_eps * sqrt (1 + \<bar>rho\<bar>) < sqrt (1 - \<bar>rho\<bar>))"

text \<open>\<^verbatim>\<open>np.polyval([a, b], x)\<close> evaluates \<open>a * x + b\<close> at each element.\<close>

definition polyval1 :: "real \<times> real \<Rightarrow> real list \<Rightarrow> real list" where
  "polyval1 coeffs x = map (\<lambda>u. fst coeffs * u + snd coeffs) x"

text \<open>\<^verbatim>\<open>np.max\<close> raises \<^verbatim>\<open>ValueError\<close> on an array of size zero.\<close>

definition np_max :: "real list \<Rightarrow> py_error + real" where
  "np_max a = (case a of [] \<Rightarrow> Inl ValueError | v # vs \<Rightarrow> Inr (fold max vs v))"

record roughness_stats =
  roughness_index :: real
  trend_slope :: real
  trend_intercept :: real
  max_deviation :: real
  deviations :: "real list"

text \<open>
  \<open>Inl\<close> is an exception leaving the function, \<open>Inr None\<close> the empty dictionary
  \<^verbatim>\<open>{}\<close>, \<open>Inr (Some r)\<close> the dictionary with the key \<^verbatim>\<open>roughness_analysis\<close>.
\<close>

definition compute_roughness_analysis ::
    "ProfilePoint list \<Rightarrow> py_error + roughness_stats option" where
  "compute_roughness_analysis profile_points =
     (if length profile_points < 5 then Inr None
      else
        let distances = map distance profile_points;
            elevations = map pt_z profile_points
        in case polyfit1 distances elevations of
             Inl e \<Rightarrow> Inl e
           | Inr coeffs \<Rightarrow>
               let trend_line = polyval1 coeffs distances;
                   devs = map (\<lambda>(e, t). e - t) (zip elevations trend_line)
               in (case np_max (map abs devs) of
                     Inl e \<Rightarrow> Inl e
                   | Inr m \<Rightarrow> Inr (Some \<lparr>
                       roughness_index = np_std devs,
                       trend_slope = fst coeffs,
                       trend_intercept = snd coeffs,
                       max_deviation = m,
                       deviations = devs\<rparr>)))"

subsection \<open>The dictionary assembled by \<^verbatim>\<open>analyze_points\<close>\<close>

record analysis_results = basic_stats +
  terrain_analysis :: "terrain_stats option"
  roughness_analysis :: "roughness_stats option"

text \<open>
  \<^verbatim>\<open>analyze_points\<close> returns at once on an empty list (\<open>Inr None\<close>); otherwise it
  sorts the points by distance (Python's sort is stable, as \<open>sort_key\<close> is) and
  merges the three dictionaries. The value is the dictionary \<^verbatim>\<open>analysis_results\<close>
  as it stands after the two \<^verbatim>\<open>update\<close> calls; an exception raised on the way is
  \<open>Inl\<close> (the method's handler logs it and nothing is emitted). The widget updates
  that follow are not part of the model.
\<close>

definition analyze_points :: "ProfilePoint list \<Rightarrow> py_error + analysis_results option" where
  "analyze_points profile_points =
     (if profile_points = [] then Inr None
      else
        let sorted_points = sort_key distance profile_points
        in case compute_basic_statistics sorted_points of
             None \<Rightarrow> Inr None
           | Some b \<Rightarrow>
               (case compute_roughness_analysis sorted_points of
                  Inl e \<Rightarrow> Inl e
                | Inr r \<Rightarrow> Inr (Some (basic_stats.extend b
                    \<lparr>terrain_analysis = compute_terrain_analysis sorted_points,
                     roughness_analysis = r\<rparr>))))"

subsection \<open>The host's geometry operations\<close>

text \<open>
  \<^verbatim>\<open>QgsLineString\<close>, \<^verbatim>\<open>QgsGeometry.closestVertex\<close>, \<^verbatim>\<open>lineLocatePoint\<close>,
  \<^verbatim>\<open>length\<close>, \<^verbatim>\<open>buffer\<close> and \<^verbatim>\<open>contains\<close> belong to the host application. They
  are modelled at their documented meaning on planar points with real coordinates.
\<close>

type_synonym point = "real \<times> real"
type_synonym polyline = "point list"

definition sqr_dist :: "point \<Rightarrow> point \<Rightarrow> real" where
  "sqr_dist p q = (fst p - fst q) * (fst p - fst q) + (snd p - snd q) * (snd p - snd q)"

fun segments :: "polyline \<Rightarrow> (point \<times> point) list" where
  "segments (a # c # rest) = (a, c) # segments (c # rest)"
| "segments [a] = []"
| "segments [] = []"

definition seg_length :: "point \<times> point \<Rightarrow> real" where
  "seg_length s = sqrt (sqr_dist (fst s) (snd s))"

text \<open>\<^verbatim>\<open>QgsLineString.length()\<close>: the sum of the segment lengths.\<close>

definition line_length :: "polyline \<Rightarrow> real" where
  "line_length line = sum_list (map seg_length (segments line))"

text \<open>
  The position of the foot of \<open>p\<close> on the line through a segment, as a fraction of the
  segment (0 at its start, 1 at its end). It is only used on a segment with two
  distinct ends.
\<close>

definition projection_factor :: "point \<times> point \<Rightarrow> point \<Rightarrow> real" where
  "projection_factor s p =
     ((fst p - fst (fst s)) * (fst (snd s) - fst (fst s))
        + (snd p - snd (fst s)) * (snd (snd s) - snd (fst s)))
     / sqr_dist (fst s) (snd s)"

text \<open>The point of the segment nearest to \<open>p\<close>.\<close>

definition nearest_on_segment :: "point \<times> point \<Rightarrow> point \<Rightarrow> point" where
  "nearest_on_segment s p =
     (if fst s = snd s then fst s
      else
        let r = projection_factor s p in
        if r \<le> 0 then fst s
        else if 1 \<le> r then snd s
        else (fst (fst s) + r * (fst (snd s) - fst (fst s)),
              snd (fst s) + r * (snd (snd s) - snd (fst s))))"

definition seg_sqr_distance :: "point \<times> point \<Rightarrow> point \<Rightarrow> real" where
  "seg_sqr_distance s p = sqr_dist p (nearest_on_segment s p)"

text \<open>
  \<^verbatim>\<open>closestVertex\<close>: the vertex of the geometry nearest to the point. The host
  walks the vertices and replaces its candidate when the new squared distance is
  less than or equal to the best so far, so among equally near vertices the last
  one is returned; an empty geometry gives the default point.
\<close>

fun closest_vertex_loop :: "point \<Rightarrow> point list \<Rightarrow> (point \<times> real) option \<Rightarrow> (point \<times> real) option" where
  "closest_vertex_loop p [] best = best"
| "closest_vertex_loop p (v # vs) best =
     (let current = sqr_dist p v
      in case best of
           None \<Rightarrow> closest_vertex_loop p vs (Some (v, current))
         | Some (w, least) \<Rightarrow>
             if current \<le> least then closest_vertex_loop p vs (Some (v, current))
             else closest_vertex_loop p vs best)"

definition closestVertex :: "polyline \<Rightarrow> point \<Rightarrow> point" where
  "closestVertex line p =
     (case closest_vertex_loop p line None of None \<Rightarrow> (0, 0) | Some (v, least) \<Rightarrow> v)"

text \<open>
  \<^verbatim>\<open>lineLocatePoint\<close>: the distance along the line of the point of the line nearest to
  the given point. The segments are walked from the start; the first segment at the
  least distance decides, and the measure is the length before that segment plus
  the part of it up to the nearest point. The host returns \<open>-1\<close> when it has no
  line to measure along.
\<close>

definition segment_measure :: "point \<times> point \<Rightarrow> point \<Rightarrow> real \<Rightarrow> real" where
  "segment_measure s p start =
     (if fst s = snd s then start
      else
        let r = projection_factor s p in
        if r \<le> 0 then start
        else if r \<le> 1 then start + r * seg_length s
        else start + seg_length s)"

fun locate_loop :: "point \<Rightarrow> (point \<times> point) list \<Rightarrow> real \<Rightarrow> (real \<times> real) option \<Rightarrow> (real \<times> real) option" where
  "locate_loop p [] start best = best"
| "locate_loop p (s # ss) start best =
     (let d = seg_sqr_distance s p;
          m = segment_measure s p start;
          best' = (case best of
                     None \<Rightarrow> Some (m, d)
                   | Some (bm, least) \<Rightarrow> if d < least then Some (m, d) else best)
      in locate_loop p ss (start + seg_length s) best')"

definition lineLocatePoint :: "polyline \<Rightarrow> point \<Rightarrow> real" where
  "lineLocatePoint line p =
     (case locate_loop p (segments line) 0 None of None \<Rightarrow> - 1 | Some (m, least) \<Rightarrow> m)"

text \<open>
  Modelled from the spec: the containment test of the geometry returned by
  \<^verbatim>\<open>profile_geometry.buffer(self.buffer_distance, 5)\<close>, which the source only
  calls. The specification's \<open>contains(P)\<close> is true iff the distance from \<open>P\<close> to
  the polyline (perpendicular, or to the nearest vertex) is at most the buffer
  distance \<open>b > 0\<close>. The distances are compared by their squares.
\<close>

definition buffer_contains :: "polyline \<Rightarrow> real \<Rightarrow> point \<Rightarrow> bool" where
  "buffer_contains line b p =
     (0 < b \<and> list_ex (\<lambda>s. seg_sqr_distance s p \<le> b * b) (segments line))"

text \<open>The distance from a point to the polyline, for the statements below.\<close>

definition dist_to_line :: "polyline \<Rightarrow> point \<Rightarrow> real" where
  "dist_to_line line p = sqrt (Min (set (map (\<lambda>s. seg_sqr_distance s p) (segments line))))"

text \<open>
  The specification's \<open>project(P)\<close>: the arc length from the start of the line to
  the point of the line nearest to \<open>P\<close> itself.
\<close>

definition project :: "polyline \<Rightarrow> point \<Rightarrow> real" where
  "project line p = lineLocatePoint line p"

subsection \<open>The analyser's state\<close>

record rectangle =
  xMinimum :: real
  xMaximum :: real
  yMinimum :: real
  yMaximum :: real

text \<open>
  A record of the point cloud as the loop reads it: \<^verbatim>\<open>point_data['X']\<close> and
  \<^verbatim>\<open>['Y']\<close> raise \<^verbatim>\<open>KeyError\<close> on a missing key, \<^verbatim>\<open>.get\<close> does not. A missing key
  is \<open>None\<close>. The attributes of a point cloud are numeric.
\<close>

record point_data =
  X :: "real option"
  Y :: "real option"
  Z :: "real option"
  Intensity :: "real option"
  Classification :: "int option"

text \<open>
  The layer: its extent and the records that the iterator of
  \<^verbatim>\<open>dataProvider().query(request)\<close> yields, in order.
\<close>

record layer =
  extent :: rectangle
  records :: "point_data list"

datatype log_message =
    PointsExtracted nat
  | NoPointsFound
  | ExtractionError py_error

record analyzer =
  vpc_layer :: "layer option"
  profile_line :: "polyline option"
  buffer_spin :: real
  buffer_distance :: real
  profile_points :: "ProfilePoint list"
  progress_bar :: int
  progress_visible :: bool
  analyze_btn :: bool
  message_log :: "log_message list"

subsection \<open>\<^verbatim>\<open>get_profile_line\<close>\<close>

definition get_profile_line :: "analyzer \<Rightarrow> analyzer" where
  "get_profile_line a =
     (case vpc_layer a of
        None \<Rightarrow> a
      | Some l \<Rightarrow>
          let ext = extent l;
              center_y = yMinimum ext + (yMaximum ext - yMinimum ext) / 2;
              start_point = (xMinimum ext, center_y);
              end_point = (xMaximum ext, center_y)
          in a\<lparr>profile_line := Some [start_point, end_point]\<rparr>)"

subsection \<open>\<^verbatim>\<open>extract_profile_points\<close>\<close>

text \<open>Python's \<^verbatim>\<open>int\<close> of a float truncates towards zero.\<close>

definition py_int :: "real \<Rightarrow> int" where
  "py_int v = (if 0 \<le> v then \<lfloor>v\<rfloor> else \<lceil>v\<rceil>)"

text \<open>
  One pass of the \<^verbatim>\<open>while iterator.hasNext()\<close> loop; \<open>b\<close> is the distance that
  \<^verbatim>\<open>buffered_geometry\<close> was built with. The result is the exception
  raised in the pass, if any, and the analyser as the pass leaves it: a point
  appended before the exception stays in \<^verbatim>\<open>self.profile_points\<close>. The float
  division \<^verbatim>\<open>distance_along_profile / total_distance\<close> raises
  \<^verbatim>\<open>ZeroDivisionError\<close> when the line has length 0.
\<close>

definition extract_point ::
    "polyline \<Rightarrow> real \<Rightarrow> real \<Rightarrow> point_data \<Rightarrow> analyzer \<Rightarrow> py_error option \<times> analyzer" where
  "extract_point line b total_distance pd a =
     (case X pd of
        None \<Rightarrow> (Some (KeyError ''X''), a)
      | Some x \<Rightarrow>
          (case Y pd of
             None \<Rightarrow> (Some (KeyError ''Y''), a)
           | Some y \<Rightarrow>
               let z = (case Z pd of None \<Rightarrow> 0 | Some v \<Rightarrow> v) in
               if buffer_contains line b (x, y) then
                 let closest_point = closestVertex line (x, y);
                     distance_along_profile = lineLocatePoint line closest_point;
                     profile_point = \<lparr>
                       pt_x = x, pt_y = y, pt_z = z,
                       distance = distance_along_profile,
                       intensity = Intensity pd,
                       classification = Classification pd,
                       rgb = None,
                       original_coords = Some (x, y, z)\<rparr>;
                     a1 = a\<lparr>profile_points := profile_points a @ [profile_point]\<rparr>
                 in if total_distance = 0 then (Some ZeroDivisionError, a1)
                    else (None, a1\<lparr>progress_bar :=
                            py_int (distance_along_profile / total_distance * 100)\<rparr>)
               else (None, a)))"

fun extract_loop ::
    "polyline \<Rightarrow> real \<Rightarrow> real \<Rightarrow> point_data list \<Rightarrow> analyzer \<Rightarrow> py_error option \<times> analyzer" where
  "extract_loop line b total_distance [] a = (None, a)"
| "extract_loop line b total_distance (pd # rest) a =
     (case extract_point line b total_distance pd a of
        (Some e, a1) \<Rightarrow> (Some e, a1)
      | (None, a1) \<Rightarrow> extract_loop line b total_distance rest a1)"

text \<open>
  The method. \<open>Inl\<close> would be an exception reaching the caller; the body stands in
  \<^verbatim>\<open>try ... except Exception\<close>, whose handler hides the progress bar and logs the
  error, so every exception of the loop ends in \<open>Inr\<close>.
\<close>

definition extract_profile_points :: "analyzer \<Rightarrow> py_error + analyzer" where
  "extract_profile_points a =
     (case vpc_layer a of
        None \<Rightarrow> Inr a
      | Some l \<Rightarrow>
          (case profile_line a of
             None \<Rightarrow> Inr a
           | Some line \<Rightarrow>
               let a1 = a\<lparr>progress_visible := True,
                          buffer_distance := buffer_spin a,
                          profile_points := []\<rparr>;
                   total_distance = line_length line
               in (case extract_loop line (buffer_distance a1) total_distance (records l) a1 of
                     (Some e, a2) \<Rightarrow>
                       Inr (a2\<lparr>progress_visible := False,
                               message_log := message_log a2 @ [ExtractionError e]\<rparr>)
                   | (None, a2) \<Rightarrow>
                       let a3 = a2\<lparr>progress_visible := False\<rparr>
                       in if profile_points a3 \<noteq> [] then
                            Inr (a3\<lparr>analyze_btn := True,
                                    message_log := message_log a3
                                      @ [PointsExtracted (length (profile_points a3))]\<rparr>)
                          else Inr (a3\<lparr>message_log := message_log a3 @ [NoPointsFound]\<rparr>))))"

subsection \<open>Example data\<close>

text \<open>
  The analyser as \<^verbatim>\<open>__init__\<close> and \<^verbatim>\<open>setup_ui\<close> leave it: no layer, no line, no
  points, buffer 5.0, the analyse button disabled and the progress bar hidden.
\<close>

definition initial_analyzer :: analyzer where
  "initial_analyzer = \<lparr>
     vpc_layer = None, profile_line = None, buffer_spin = 5, buffer_distance = 5,
     profile_points = [], progress_bar = 0, progress_visible = False,
     analyze_btn = False, message_log = []\<rparr>"

definition raw_point :: "real \<Rightarrow> real \<Rightarrow> real \<Rightarrow> real option \<Rightarrow> point_data" where
  "raw_point x y z i = \<lparr>X = Some x, Y = Some y, Z = Some z, Intensity = i, Classification = None\<rparr>"

text \<open>
  A layer whose extent spans \<open>x\<close> from \<open>x0\<close> to \<open>x1\<close> and \<open>y\<close> from \<open>-10\<close> to \<open>10\<close>, selected
  in the analyser, with the profile line that \<^verbatim>\<open>get_profile_line\<close> draws through it:
  from \<open>(x0, 0)\<close> to \<open>(x1, 0)\<close>.
\<close>

definition analyzer_on :: "real \<Rightarrow> real \<Rightarrow> point_data list \<Rightarrow> analyzer" where
  "analyzer_on x0 x1 recs =
     get_profile_line (initial_analyzer\<lparr>vpc_layer := Some \<lparr>
       extent = \<lparr>xMinimum = x0, xMaximum = x1, yMinimum = - 10, yMaximum = 10\<rparr>,
       records = recs\<rparr>\<rparr>)"

text \<open>A profile point at distance \<open>d\<close> with elevation \<open>z\<close> and intensity \<open>i\<close>.\<close>

definition point_at :: "real \<Rightarrow> real \<Rightarrow> real option \<Rightarrow> ProfilePoint" where
  "point_at d z i = \<lparr>
     pt_x = d, pt_y = 0, pt_z = z, distance = d, intensity = i,
     classification = None, rgb = None, original_coords = Some (d, 0, z)\<rparr>"

text \<open>
  The reference scenario after extraction as the specification expects it: three
  points at distances 10, 50 and 90 with elevations 5, 8 and 6, the third without
  intensity.
\<close>

definition scenario_points :: "ProfilePoint list" where
  "scenario_points = [point_at 10 5 (Some 50), point_at 50 8 (Some 60), point_at 90 6 None]"

text \<open>
  The span of a list of distances in the words of the claim: the maximum minus the
  minimum, and 0 for the empty list.
\<close>

definition distance_span :: "real list \<Rightarrow> real" where
  "distance_span ds = (if ds = [] then 0 else Max (set ds) - Min (set ds))"

text \<open>The intensities that are present, in the order of the points.\<close>

definition present_intensities :: "ProfilePoint list \<Rightarrow> real list" where
  "present_intensities ps = concat (map (\<lambda>p. case intensity p of None \<Rightarrow> [] | Some v \<Rightarrow> [v]) ps)"

text \<open>
  Three points for the terrain analysis: a rise of 10 over a distance of 10, then a
  second point at the same distance.
\<close>

definition terrain_example :: "ProfilePoint list" where
  "terrain_example = [point_at 0 0 None, point_at 10 10 None, point_at 10 12 None]"



text \<open>
  Five points of the same line with nearly equal distances: four at \<open>10 ^ 6\<close> and one
  at \<open>10 ^ 6 + 1 / 2 ^ 33\<close>.
\<close>

definition near_distance_example :: "ProfilePoint list" where
  "near_distance_example =
     [point_at 1000000 2000005 None, point_at 1000000 2000005 None,
      point_at 1000000 2000005 None, point_at 1000000 2000005 None,
      point_at (1000000 + 1 / 2 ^ 33) (2000005 + 2 / 2 ^ 33) None]"

text \<open>Five points that all lie at distance 0, with elevations 1, 2, 3, 2, 1.\<close>

definition zero_distance_example :: "ProfilePoint list" where
  "zero_distance_example =
     [point_at 0 1 None, point_at 0 2 None, point_at 0 3 None, point_at 0 2 None,
      point_at 0 1 None]"

subsection \<open>Predicates on raw records for the statements\<close>

text \<open>A record that the loop can read: both \<^verbatim>\<open>X\<close> and \<^verbatim>\<open>Y\<close> are present.\<close>

definition well_formed :: "point_data \<Rightarrow> bool" where
  "well_formed pd = (X pd \<noteq> None \<and> Y pd \<noteq> None)"

text \<open>A readable record whose position is farther than \<open>b\<close> from the line.\<close>

definition farther_than :: "polyline \<Rightarrow> real \<Rightarrow> point_data \<Rightarrow> bool" where
  "farther_than line b pd =
     (case X pd of
        None \<Rightarrow> False
      | Some x \<Rightarrow> (case Y pd of None \<Rightarrow> False | Some y \<Rightarrow> b < dist_to_line line (x, y)))"

text \<open>
  The analyser with the two fields that the extraction loop writes reset; two
  analysers with the same frame differ in those fields only.
\<close>

definition frame :: "analyzer \<Rightarrow> analyzer" where
  "frame a = a\<lparr>profile_points := [], progress_bar := 0\<rparr>"

text \<open>The points of an analyser all lie in the buffer of width \<open>b\<close> around the line.\<close>

definition inside :: "polyline \<Rightarrow> real \<Rightarrow> analyzer \<Rightarrow> bool" where
  "inside line b a =
     list_all (\<lambda>q. buffer_contains line b (pt_x q, pt_y q)) (profile_points a)"

text \<open>A record without the key \<^verbatim>\<open>X\<close>.\<close>

definition no_x_record :: point_data where
  "no_x_record = \<lparr>X = None, Y = Some 2, Z = Some 5, Intensity = None, Classification = None\<rparr>"

section \<open>Aggregates and square roots\<close>

lemma py_min_Min: "py_min v vs = Min (set (v # vs))"
  by (simp only: py_min_def Min.set_eq_fold)

lemma py_max_Max: "py_max v vs = Max (set (v # vs))"
  by (simp only: py_max_def Max.set_eq_fold)

lemma sqrt_25: "sqrt 25 = 5"
  by (rule real_sqrt_unique) simp_all

lemma sqrt_10000: "sqrt 10000 = 100"
  by (rule real_sqrt_unique) simp_all

section \<open>Basic statistics\<close>

lemma present_intensities_filter:
  "map (the \<circ> intensity) (filter (\<lambda>p. intensity p \<noteq> None) ps) = present_intensities ps"
  by (induction ps) (auto simp: present_intensities_def)

lemma present_intensities_Nil:
  "present_intensities ps = [] \<longleftrightarrow> \<not> list_ex (\<lambda>p. intensity p \<noteq> None) ps"
  by (induction ps) (auto simp: present_intensities_def split: option.splits)

text \<open>
  Claim C10. The \<^verbatim>\<open>profile_length\<close> field of the result of
  \<^verbatim>\<open>compute_basic_statistics\<close> is the maximum minus the minimum of the points'
  distances (the expression's value for an empty list is 0): the span of the
  accepted points, not the length of the reference line. A non-empty point list
  always has a result. On the empty list the method returns \<^verbatim>\<open>{}\<close> before the field is
  computed, so no result carries the value for the empty list.
\<close>

theorem profile_length_is_distance_span:
  "(ps \<noteq> [] \<longrightarrow> compute_basic_statistics ps \<noteq> None) \<and>
   (\<forall>r. compute_basic_statistics ps = Some r \<longrightarrow>
      profile_length r = distance_span (map distance ps))"
  by (cases ps)
     (auto simp: compute_basic_statistics_def distance_span_def Let_def py_max_Max py_min_Min)

text \<open>
  In the reference scenario the points span the distances 10 to 90, so the field is
  80, while the line from \<open>(0, 0)\<close> to \<open>(100, 0)\<close> has length 100.
\<close>

theorem profile_length_witness:
  "scenario_points \<noteq> [] \<and>
   (\<exists>r. compute_basic_statistics scenario_points = Some r \<and> profile_length r = 80) \<and>
   line_length [(0, 0), (100, 0)] = 100"
proof -
  have ne: "scenario_points \<noteq> []"
    by (simp add: scenario_points_def)
  with profile_length_is_distance_span [of scenario_points]
  obtain r where r: "compute_basic_statistics scenario_points = Some r"
    and len: "profile_length r = distance_span (map distance scenario_points)"
    by auto
  have "distance_span (map distance scenario_points) = 80"
    by (simp add: distance_span_def scenario_points_def point_at_def)
  with r len ne show ?thesis
    by (auto simp: line_length_def seg_length_def sqr_dist_def sqrt_10000)
qed

text \<open>
  Claim C5, as the code has it. In a result of \<^verbatim>\<open>compute_basic_statistics\<close> the
  group \<^verbatim>\<open>intensity_stats\<close> is present iff some point carries an intensity; its
  keys are \<^verbatim>\<open>min\<close>, \<^verbatim>\<open>max\<close>, \<^verbatim>\<open>mean\<close> and \<^verbatim>\<open>std\<close> (there is no \<^verbatim>\<open>range\<close>), and
  their values are the minimum, maximum, mean and population standard deviation of
  the intensities that are present; a point without intensity contributes nothing.
\<close>

theorem intensity_stats_over_present:
  assumes "compute_basic_statistics ps = Some r"
  shows "(intensity_stats r \<noteq> None \<longleftrightarrow> list_ex (\<lambda>p. intensity p \<noteq> None) ps) \<and>
         (\<forall>m. intensity_stats r = Some m \<longrightarrow>
            dom m = {''min'', ''max'', ''mean'', ''std''} \<and>
            m ''min'' = Some (Min (set (present_intensities ps))) \<and>
            m ''max'' = Some (Max (set (present_intensities ps))) \<and>
            m ''mean'' = Some (sum_list (present_intensities ps)
                                / real (length (present_intensities ps))) \<and>
            m ''std'' = Some (sqrt ((\<Sum>v\<leftarrow>present_intensities ps.
                                       (v - sum_list (present_intensities ps)
                                              / real (length (present_intensities ps)))\<^sup>2)
                                    / real (length (present_intensities ps)))))"
proof -
  from assms have r: "r = \<lparr>
      point_count = length ps,
      profile_length =
        (case map distance ps of [] \<Rightarrow> 0 | d # ds \<Rightarrow> py_max d ds - py_min d ds),
      elevation_stats = Map.empty(
        ''min'' \<mapsto> (case map pt_z ps of [] \<Rightarrow> 0 | e # es \<Rightarrow> py_min e es),
        ''max'' \<mapsto> (case map pt_z ps of [] \<Rightarrow> 0 | e # es \<Rightarrow> py_max e es),
        ''mean'' \<mapsto> (if map pt_z ps \<noteq> [] then np_mean (map pt_z ps) else 0),
        ''std'' \<mapsto> (if map pt_z ps \<noteq> [] then np_std (map pt_z ps) else 0),
        ''range'' \<mapsto>
          (case map pt_z ps of [] \<Rightarrow> 0 | e # es \<Rightarrow> py_max e es - py_min e es)),
      intensity_stats =
        (case present_intensities ps of
           [] \<Rightarrow> None
         | i # is \<Rightarrow> Some (Map.empty(
             ''min'' \<mapsto> py_min i is,
             ''max'' \<mapsto> py_max i is,
             ''mean'' \<mapsto> np_mean (present_intensities ps),
             ''std'' \<mapsto> np_std (present_intensities ps))))\<rparr>"
    unfolding compute_basic_statistics_def Let_def present_intensities_filter
    by (simp split: if_splits)
  show ?thesis
  proof (cases "present_intensities ps")
    case Nil
    with r show ?thesis
      using present_intensities_Nil [of ps] by simp
  next
    case (Cons i rest)
    then have "list_ex (\<lambda>p. intensity p \<noteq> None) ps"
      using present_intensities_Nil [of ps] by auto
    with r Cons show ?thesis
      by (auto simp: py_max_Max py_min_Min np_mean_def np_std_def)
  qed
qed

text \<open>
  In the reference scenario the statistics are those of the two intensities 50 and
  60; the third point, which has none, is not counted as 0.
\<close>

theorem intensity_stats_witness:
  "\<exists>r m. compute_basic_statistics scenario_points = Some r \<and> intensity_stats r = Some m \<and>
     present_intensities scenario_points = [50, 60] \<and>
     m ''min'' = Some 50 \<and> m ''max'' = Some 60 \<and> m ''mean'' = Some 55 \<and> m ''std'' = Some 5"
proof -
  have "compute_basic_statistics scenario_points \<noteq> None"
    by (simp add: compute_basic_statistics_def scenario_points_def Let_def)
  then obtain r where r: "compute_basic_statistics scenario_points = Some r"
    by auto
  have pi: "present_intensities scenario_points = [50, 60]"
    by (simp add: present_intensities_def scenario_points_def point_at_def)
  have ex: "list_ex (\<lambda>p. intensity p \<noteq> None) scenario_points"
    by (simp add: scenario_points_def point_at_def)
  from intensity_stats_over_present [OF r] ex obtain m where m: "intensity_stats r = Some m"
    by auto
  from intensity_stats_over_present [OF r] m pi r show ?thesis
    by (auto simp: sqrt_25 power2_eq_square)
qed

text \<open>
  Claim C5 as stated fails on the shape: in the reference scenario the group
  \<^verbatim>\<open>intensity_stats\<close> is present and has no key \<^verbatim>\<open>range\<close>, while
  \<^verbatim>\<open>elevation_stats\<close> has one (with the value 3).
\<close>

theorem intensity_stats_has_no_range:
  "map_option
     (\<lambda>r. (map_option (\<lambda>m. m ''range'') (intensity_stats r), elevation_stats r ''range''))
     (compute_basic_statistics scenario_points) = Some (Some None, Some 3)"
  by (simp add: compute_basic_statistics_def scenario_points_def point_at_def Let_def
       py_max_def py_min_def)

section \<open>Terrain analysis\<close>

lemma slopes_loop_spec:
  "slopes_loop ps i acc =
     acc @ map (\<lambda>i. slope_angle (ps ! (i - 1)) (ps ! i))
       (filter (\<lambda>i. distance (ps ! i) \<noteq> distance (ps ! (i - 1))) [i..<length ps])"
proof (induction ps i acc rule: slopes_loop.induct)
  case (1 ps i acc)
  show ?case
  proof (cases "i < length ps")
    case False
    then show ?thesis by (subst slopes_loop.simps) simp
  next
    case True
    then have up: "[i..<length ps] = i # [i + 1..<length ps]"
      by (simp add: upt_conv_Cons)
    show ?thesis
    proof (cases "distance (ps ! i) \<noteq> distance (ps ! (i - 1))")
      case neq: True
      from 1(1)[OF True refl refl neq refl] True neq up show ?thesis
        by (subst slopes_loop.simps) (simp add: Let_def slope_angle_def degrees_def)
    next
      case eq: False
      from 1(2)[OF True refl refl] eq True up show ?thesis
        by (subst slopes_loop.simps) (simp add: Let_def)
    qed
  qed
qed

lemma slopes_loop_refines: "slopes_loop ps (Suc 0) [] = spec_slopes ps"
  using slopes_loop_spec [of ps 1 "[]"] by (simp add: spec_slopes_def)

text \<open>
  Claim C2. For at least 3 profile points \<^verbatim>\<open>compute_terrain_analysis\<close> returns the
  terrain group; its \<^verbatim>\<open>slopes\<close> are, in sequence order, the angle
  \<open>atan((z[i] - z[i-1]) / (distance[i] - distance[i-1]))\<close> in degrees of each
  consecutive pair with unequal distances, a pair with equal distances giving no
  entry; \<^verbatim>\<open>mean_slope\<close>, \<^verbatim>\<open>max_slope\<close>, \<^verbatim>\<open>min_slope\<close> and \<^verbatim>\<open>slope_std\<close> are the mean,
  maximum, minimum and population standard deviation of that sequence (and 0 when the
  sequence is empty). The statement needs no order of the points.
\<close>

theorem terrain_slopes_as_specified:
  assumes "3 \<le> length ps"
  shows "\<exists>t. compute_terrain_analysis ps = Some t \<and> slopes t = spec_slopes ps \<and>
     (slopes t \<noteq> [] \<longrightarrow>
        mean_slope t = sum_list (slopes t) / real (length (slopes t)) \<and>
        max_slope t = Max (set (slopes t)) \<and>
        min_slope t = Min (set (slopes t)) \<and>
        slope_std t =
          sqrt ((\<Sum>v\<leftarrow>slopes t. (v - mean_slope t)\<^sup>2) / real (length (slopes t)))) \<and>
     (slopes t = [] \<longrightarrow>
        mean_slope t = 0 \<and> max_slope t = 0 \<and> min_slope t = 0 \<and> slope_std t = 0)"
  using assms
  by (cases "spec_slopes ps")
     (simp_all add: compute_terrain_analysis_def slopes_loop_refines Let_def
        py_max_Max py_min_Min np_mean_def np_std_def)

lemma spec_slopes_example: "spec_slopes terrain_example = [45]"
proof -
  have "[1..<3] = [1, 2::nat]"
    by (simp add: upt_rec)
  then show ?thesis
    by (simp add: spec_slopes_def terrain_example_def point_at_def slope_angle_def arctan_one)
qed

text \<open>
  Three points, the last two at the same distance: one slope of 45 degrees, and no
  entry for the pair with equal distances.
\<close>

theorem terrain_slopes_witness:
  "3 \<le> length terrain_example \<and>
   (\<exists>t. compute_terrain_analysis terrain_example = Some t \<and> slopes t = [45] \<and>
      mean_slope t = 45 \<and> max_slope t = 45 \<and> min_slope t = 45 \<and> slope_std t = 0)"
proof -
  have len: "3 \<le> length terrain_example"
    by (simp add: terrain_example_def)
  from terrain_slopes_as_specified [OF len] len show ?thesis
    by (auto simp: spec_slopes_example)
qed

section \<open>Roughness analysis\<close>

lemma sum_sq_zero_all_zero:
  fixes xs :: "real list"
  assumes "(\<Sum>u\<leftarrow>xs. u * u) = 0" and "u \<in> set xs"
  shows "u = 0"
proof -
  have "\<forall>v\<in>set (map (\<lambda>u. u * u) xs). 0 \<le> v" by auto
  with assms(1) have "\<forall>v\<in>set (map (\<lambda>u. u * u) xs). v = 0"
    using sum_list_nonneg_eq_0_iff [of "map (\<lambda>u. u * u) xs"] by blast
  with assms(2) show ?thesis by auto
qed



lemma sum_squares_nonneg: "0 \<le> (\<Sum>u\<leftarrow>(xs::real list). u * u)"
  by (rule sum_list_nonneg) auto

lemma full_rank_det:
  assumes "full_rank x"
  shows "(\<Sum>u\<leftarrow>x. u * u) \<noteq> 0"
    and "\<not> sqrt (1 - \<bar>sum_list x / sqrt (real (length x) * (\<Sum>u\<leftarrow>x. u * u))\<bar>)
           \<le> real (length x) * float_eps
               * sqrt (1 + \<bar>sum_list x / sqrt (real (length x) * (\<Sum>u\<leftarrow>x. u * u))\<bar>)"
    and "0 < real (length x) * (\<Sum>u\<leftarrow>x. u * u) - sum_list x * sum_list x"
proof -
  let ?n = "real (length x)"
  let ?sx = "sum_list x"
  let ?sxx = "\<Sum>u\<leftarrow>x. u * u"
  let ?m = "sqrt (?n * ?sxx)"
  let ?rho = "?sx / ?m"
  from assms have sxx: "?sxx \<noteq> 0"
    and cut: "?n * float_eps * sqrt (1 + \<bar>?rho\<bar>) < sqrt (1 - \<bar>?rho\<bar>)"
    by (simp_all add: full_rank_def Let_def)
  show "?sxx \<noteq> 0" by (rule sxx)
  from cut show "\<not> sqrt (1 - \<bar>?rho\<bar>) \<le> ?n * float_eps * sqrt (1 + \<bar>?rho\<bar>)"
    by simp
  from sxx have "x \<noteq> []" by auto
  then have n: "0 < ?n" by simp
  from sxx sum_squares_nonneg [of x] have "0 < ?sxx" by simp
  with n have pos: "0 < ?n * ?sxx" by simp
  then have m: "0 < ?m" and m2: "?m * ?m = ?n * ?sxx" by simp_all
  have "0 \<le> ?n * float_eps * sqrt (1 + \<bar>?rho\<bar>)"
    by (simp add: float_eps_def)
  with cut have "0 < sqrt (1 - \<bar>?rho\<bar>)" by linarith
  then have "0 < 1 - \<bar>?rho\<bar>" by (simp only: real_sqrt_gt_0_iff)
  then have "\<bar>?rho\<bar> < 1" by linarith
  then have "\<bar>?sx\<bar> / ?m < 1" using m by (simp add: abs_divide)
  with m have "\<bar>?sx\<bar> < ?m" by (simp add: divide_less_eq)
  then have "\<bar>?sx\<bar> * \<bar>?sx\<bar> < ?m * ?m"
    by (intro mult_strict_mono') simp_all
  with pos have "?sx * ?sx < ?n * ?sxx"
    by simp
  then show "0 < ?n * ?sxx - ?sx * ?sx" by simp
qed

lemma polyfit1_full_rank:
  assumes "full_rank x"
  shows "polyfit1 x y =
    Inr ((real (length x) * (\<Sum>(u, v)\<leftarrow>zip x y. u * v) - sum_list x * sum_list y)
           / (real (length x) * (\<Sum>u\<leftarrow>x. u * u) - sum_list x * sum_list x),
         (sum_list y * (\<Sum>u\<leftarrow>x. u * u) - sum_list x * (\<Sum>(u, v)\<leftarrow>zip x y. u * v))
           / (real (length x) * (\<Sum>u\<leftarrow>x. u * u) - sum_list x * sum_list x))"
  unfolding polyfit1_def Let_def
  using full_rank_det(1,2) [OF assms] by (simp only: if_False)


text \<open>Full rank needs two distinct distances.\<close>

lemma full_rank_two_distances:
  assumes "full_rank x"
  shows "\<exists>u\<in>set x. \<exists>v\<in>set x. u \<noteq> v"
proof (rule ccontr)
  assume "\<not> (\<exists>u\<in>set x. \<exists>v\<in>set x. u \<noteq> v)"
  then have same: "\<And>u v. u \<in> set x \<Longrightarrow> v \<in> set x \<Longrightarrow> u = v" by blast
  from full_rank_det(1) [OF assms] have ne: "x \<noteq> []" by auto
  then obtain c where c: "c \<in> set x" by (cases x) auto
  with same have all: "\<forall>u\<in>set x. u = c" by blast
  have sx: "sum_list x = real (length x) * c"
    and sxx: "(\<Sum>u\<leftarrow>x. u * u) = real (length x) * (c * c)"
    using all by (induction x) (simp_all add: algebra_simps)
  from full_rank_det(3) [OF assms] show False
    unfolding sx sxx by (simp add: algebra_simps)
qed

lemma squared_error_split:
  fixes zs :: "(real \<times> real) list"
  shows "(\<Sum>(u, v)\<leftarrow>zs. (v - (a' * u + b')) * (v - (a' * u + b'))) =
         (\<Sum>(u, v)\<leftarrow>zs. (v - (a * u + b)) * (v - (a * u + b)))
         + 2 * (a - a') * (\<Sum>(u, v)\<leftarrow>zs. (v - (a * u + b)) * u)
         + 2 * (b - b') * (\<Sum>(u, v)\<leftarrow>zs. v - (a * u + b))
         + (\<Sum>(u, v)\<leftarrow>zs. ((a - a') * u + (b - b')) * ((a - a') * u + (b - b')))"
  by (induction zs) (auto simp: algebra_simps)

lemma residual_sums:
  fixes x y :: "real list"
  assumes "length x = length y"
  shows "(\<Sum>(u, v)\<leftarrow>zip x y. v - (a * u + b)) =
           sum_list y - a * sum_list x - b * real (length x)"
    and "(\<Sum>(u, v)\<leftarrow>zip x y. (v - (a * u + b)) * u) =
           (\<Sum>(u, v)\<leftarrow>zip x y. u * v) - a * (\<Sum>u\<leftarrow>x. u * u) - b * sum_list x"
  using assms by (induction x y rule: list_induct2) (simp_all add: algebra_simps)


lemma polyfit1_normal_equations:
  assumes len: "length x = length y" and rank: "full_rank x" and fit: "polyfit1 x y = Inr (a, b)"
  shows "sum_list y - a * sum_list x - b * real (length x) = 0"
    and "(\<Sum>(u, v)\<leftarrow>zip x y. u * v) - a * (\<Sum>u\<leftarrow>x. u * u) - b * sum_list x = 0"
proof -
  let ?n = "real (length x)"
  let ?sx = "sum_list x"
  let ?sy = "sum_list y"
  let ?sxx = "\<Sum>u\<leftarrow>x. u * u"
  let ?sxy = "\<Sum>(u, v)\<leftarrow>zip x y. u * v"
  let ?det = "?n * ?sxx - ?sx * ?sx"
  have det: "?det \<noteq> 0"
    using full_rank_det(3) [OF rank] by simp
  from fit have a: "a = (?n * ?sxy - ?sx * ?sy) / ?det"
    and b: "b = (?sy * ?sxx - ?sx * ?sxy) / ?det"
    unfolding polyfit1_full_rank [OF rank] by simp_all
  have "(?sy - a * ?sx - b * ?n) * ?det = 0"
    unfolding a b using det by (simp add: field_simps)
  with det show "?sy - a * ?sx - b * ?n = 0" by simp
  have "(?sxy - a * ?sxx - b * ?sx) * ?det = 0"
    unfolding a b using det by (simp add: field_simps)
  with det show "?sxy - a * ?sxx - b * ?sx = 0" by simp
qed

text \<open>
  With full rank the line that the model of \<^verbatim>\<open>np.polyfit\<close> returns has the least
  sum of squared residuals of all lines: it is the first-degree least-squares fit.
\<close>

lemma polyfit1_least_squares:
  assumes len: "length x = length y" and rank: "full_rank x" and fit: "polyfit1 x y = Inr (a, b)"
  shows "(\<Sum>(u, v)\<leftarrow>zip x y. (v - (a * u + b)) * (v - (a * u + b)))
         \<le> (\<Sum>(u, v)\<leftarrow>zip x y. (v - (a' * u + b')) * (v - (a' * u + b')))"
proof -
  have r0: "(\<Sum>(u, v)\<leftarrow>zip x y. v - (a * u + b)) = 0"
    using residual_sums(1) [OF len] polyfit1_normal_equations(1) [OF len rank fit] by simp
  have r1: "(\<Sum>(u, v)\<leftarrow>zip x y. (v - (a * u + b)) * u) = 0"
    using residual_sums(2) [OF len] polyfit1_normal_equations(2) [OF len rank fit] by simp
  have "0 \<le> (\<Sum>(u, v)\<leftarrow>zip x y. ((a - a') * u + (b - b')) * ((a - a') * u + (b - b')))"
    by (rule sum_list_nonneg) auto
  with squared_error_split [of a' b' "zip x y" a b] r0 r1 show ?thesis
    by simp
qed











text \<open>
  Two distinct distances are not enough for full rank. Four points at distance
  \<open>10 ^ 6\<close> and one at \<open>10 ^ 6 + 1 / 2 ^ 33\<close>, all on the line: the ratio of the
  singular values is below \<^verbatim>\<open>len(x) * eps\<close>, so the fit is cut to rank 1 here too.
\<close>

lemma near_distance_example_rank_one:
  "list_all (\<lambda>p. pt_z p = 2 * distance p + 5) near_distance_example \<and>
   distance (near_distance_example ! 0) \<noteq> distance (near_distance_example ! 4) \<and>
   \<not> full_rank (map distance near_distance_example)"
proof -
  define d :: real where "d = 1 / 2 ^ 33"
  define s :: real where "s = 5000000 + d"
  define m :: real where "m = sqrt (s * s + 4 * (d * d))"
  have d: "0 < d" by (simp add: d_def)
  have s: "5000000 \<le> s" "0 < s" using d by (simp_all add: s_def)
  have sums: "sum_list (map distance near_distance_example) = s"
    "real (length (map distance near_distance_example))
       * (\<Sum>u\<leftarrow>map distance near_distance_example. u * u) = s * s + 4 * (d * d)"
    by (simp_all add: near_distance_example_def point_at_def s_def d_def algebra_simps)
  have "sqrt (s * s) \<le> m"
    unfolding m_def by (rule real_sqrt_le_mono) simp
  with s have sm: "s \<le> m" by simp
  with s have m: "0 < m" by simp
  have m2: "m * m = s * s + 4 * (d * d)"
    unfolding m_def using s by (simp add: add_nonneg_nonneg)
  then have "(m - s) * (m + s) = 4 * (d * d)"
    by (simp add: algebra_simps)
  then have ms: "m - s = 4 * (d * d) / (m + s)"
    using m s by (simp add: field_simps)
  have "4 * (d * d) / (m + s) \<le> 4 * (d * d) / (2 * 5000000)"
    using sm s by (intro divide_left_mono) simp_all
  with ms have gap: "m - s \<le> 4 * (d * d) / 10000000" by simp
  have rho: "0 \<le> s / m" "s / m \<le> 1" using s m sm by simp_all
  have "1 - s / m = (m - s) / m"
    using m by (simp add: field_simps)
  also have "\<dots> \<le> (4 * (d * d) / 10000000) / m"
    using gap m by (intro divide_right_mono) simp_all
  also have "\<dots> \<le> (4 * (d * d) / 10000000) / 5000000"
    using sm s m by (intro divide_left_mono) simp_all
  also have "\<dots> \<le> (5 * float_eps) * (5 * float_eps)"
    by (simp add: d_def float_eps_def)
  finally have small: "1 - s / m \<le> (5 * float_eps) * (5 * float_eps)" .
  have ab: "\<bar>s / m\<bar> = s / m"
    using rho by (rule_tac abs_of_nonneg)
  have "sqrt (1 - \<bar>s / m\<bar>) \<le> sqrt ((5 * float_eps) * (5 * float_eps))"
    unfolding ab using small by (rule real_sqrt_le_mono)
  also have "\<dots> = 5 * float_eps"
  proof -
    have "0 \<le> 5 * float_eps" by (simp add: float_eps_def)
    then show ?thesis by (metis abs_of_nonneg real_sqrt_abs2)
  qed
  also have "\<dots> \<le> 5 * float_eps * sqrt (1 + \<bar>s / m\<bar>)"
  proof -
    have "sqrt 1 \<le> sqrt (1 + \<bar>s / m\<bar>)"
      by (rule real_sqrt_le_mono) simp
    then have "1 \<le> sqrt (1 + \<bar>s / m\<bar>)" by simp
    then show ?thesis
      by (simp add: float_eps_def)
  qed
  finally have cut: "sqrt (1 - \<bar>s / m\<bar>) \<le> 5 * float_eps * sqrt (1 + \<bar>s / m\<bar>)" .
  have n: "real (length (map distance near_distance_example)) = 5"
    by (simp add: near_distance_example_def)
  have rho_eq: "sum_list (map distance near_distance_example)
        / sqrt (real (length (map distance near_distance_example))
                * (\<Sum>u\<leftarrow>map distance near_distance_example. u * u)) = s / m"
    unfolding sums m_def ..
  have "\<not> full_rank (map distance near_distance_example)"
  proof
    assume "full_rank (map distance near_distance_example)"
    then have "real (length (map distance near_distance_example)) * float_eps
                 * sqrt (1 + \<bar>s / m\<bar>) < sqrt (1 - \<bar>s / m\<bar>)"
      unfolding full_rank_def Let_def rho_eq by (rule conjunct2)
    with cut show False
      unfolding n by linarith
  qed
  moreover have "list_all (\<lambda>p. pt_z p = 2 * distance p + 5) near_distance_example"
    by (simp add: near_distance_example_def point_at_def)
  moreover have "distance (near_distance_example ! 0) \<noteq> distance (near_distance_example ! 4)"
    by (simp add: near_distance_example_def point_at_def)
  ultimately show ?thesis by simp
qed

lemma roughness_present:
  assumes len: "5 \<le> length ps" and nz: "p \<in> set ps" "distance p \<noteq> 0"
  shows "\<exists>r. compute_roughness_analysis ps = Inr (Some r)"
proof -
  have "(\<Sum>u\<leftarrow>map distance ps. u * u) \<noteq> 0"
  proof
    assume "(\<Sum>u\<leftarrow>map distance ps. u * u) = 0"
    then have "\<And>u. u \<in> set (map distance ps) \<Longrightarrow> u = 0"
      using sum_sq_zero_all_zero by blast
    with nz show False by auto
  qed
  then have "\<exists>c. polyfit1 (map distance ps) (map pt_z ps) = Inr c"
    unfolding polyfit1_def Let_def by (simp split: if_split)
  then obtain c where fit: "polyfit1 (map distance ps) (map pt_z ps) = Inr c" ..
  from nz have ne: "ps \<noteq> []" by auto
  then have "\<exists>m. np_max (map abs (map (\<lambda>(e, t). e - t)
      (zip (map pt_z ps) (polyval1 c (map distance ps))))) = Inr m"
    by (cases ps) (simp_all add: np_max_def polyval1_def)
  then obtain m where "np_max (map abs (map (\<lambda>(e, t). e - t)
      (zip (map pt_z ps) (polyval1 c (map distance ps))))) = Inr m" ..
  with len fit show ?thesis
    by (simp add: compute_roughness_analysis_def Let_def)
qed

text \<open>The groups by the number of points, as far as the guards decide.\<close>

lemma groups_by_count:
  "length ps = 2 \<Longrightarrow> compute_terrain_analysis ps = None \<and> compute_roughness_analysis ps = Inr None"
  "length ps = 4 \<Longrightarrow> compute_terrain_analysis ps \<noteq> None \<and> compute_roughness_analysis ps = Inr None"
  "5 \<le> length ps \<Longrightarrow> compute_terrain_analysis ps \<noteq> None \<and> compute_roughness_analysis ps \<noteq> Inr None"
  by (auto simp: compute_terrain_analysis_def compute_roughness_analysis_def Let_def
      split: sum.splits)

text \<open>
  Claim C4 at a failing input. Five points that all lie at distance 0 (sorted by
  distance; the terrain group is present): the scaled design matrix of the trend fit
  has no value, \<^verbatim>\<open>np.polyfit\<close> raises \<^verbatim>\<open>LinAlgError\<close>, and
  \<^verbatim>\<open>compute_roughness_analysis\<close> returns no roughness group but leaves by the
  exception, which takes the whole of \<^verbatim>\<open>analyze_points\<close> with it.
\<close>

theorem roughness_fails_at_zero_distances:
  "length zero_distance_example = 5 \<and>
   sorted (map distance zero_distance_example) \<and>
   compute_terrain_analysis zero_distance_example \<noteq> None \<and>
   compute_roughness_analysis zero_distance_example = Inl LinAlgError \<and>
   analyze_points zero_distance_example = Inl LinAlgError"
  by (simp add: zero_distance_example_def point_at_def compute_roughness_analysis_def
       compute_terrain_analysis_def compute_basic_statistics_def analyze_points_def
       polyfit1_def Let_def)

section \<open>Extraction\<close>

lemma contains_dist:
  assumes "buffer_contains line b p"
  shows "dist_to_line line p \<le> b"
proof -
  from assms obtain s where s: "s \<in> set (segments line)" "seg_sqr_distance s p \<le> b * b"
    and b: "0 < b"
    by (auto simp: buffer_contains_def list_ex_iff)
  let ?D = "set (map (\<lambda>s. seg_sqr_distance s p) (segments line))"
  from s(1) have "Min ?D \<le> seg_sqr_distance s p"
    by (intro Min_le) auto
  with s(2) have "Min ?D \<le> b * b" by simp
  then have "sqrt (Min ?D) \<le> sqrt (b * b)"
    by (rule real_sqrt_le_mono)
  with b show ?thesis
    by (simp add: dist_to_line_def)
qed

lemma far_not_contained: "b < dist_to_line line p \<Longrightarrow> \<not> buffer_contains line b p"
  using contains_dist [of line b p] by auto

lemma extract_point_inside:
  "inside line b a \<Longrightarrow> inside line b (snd (extract_point line b tot pd a))"
  by (auto simp: extract_point_def inside_def Let_def split: option.splits)

lemma extract_point_frame: "frame (snd (extract_point line b tot pd a)) = frame a"
  by (simp add: extract_point_def frame_def Let_def split: option.splits)

lemma extract_loop_inside:
  "inside line b a \<Longrightarrow> inside line b (snd (extract_loop line b tot recs a))"
proof (induction recs arbitrary: a)
  case Nil
  then show ?case by simp
next
  case (Cons pd rest)
  from Cons.prems have "inside line b (snd (extract_point line b tot pd a))"
    by (rule extract_point_inside)
  with Cons.IH show ?case
    by (auto split: prod.splits option.splits)
qed

lemma extract_loop_frame: "frame (snd (extract_loop line b tot recs a)) = frame a"
proof (induction recs arbitrary: a)
  case Nil
  show ?case by simp
next
  case (Cons pd rest)
  from Cons.IH [of "snd (extract_point line b tot pd a)"]
    extract_point_frame [of line b tot pd a]
  show ?case
    by (auto split: prod.splits option.splits)
qed

lemma frame_fields:
  assumes "frame a' = frame a"
  shows "buffer_distance a' = buffer_distance a" "message_log a' = message_log a"
    "analyze_btn a' = analyze_btn a" "vpc_layer a' = vpc_layer a"
    "profile_line a' = profile_line a" "buffer_spin a' = buffer_spin a"
    "progress_visible a' = progress_visible a"
proof -
  have f: "\<And>a. buffer_distance a = buffer_distance (frame a)"
    "\<And>a. message_log a = message_log (frame a)"
    "\<And>a. analyze_btn a = analyze_btn (frame a)"
    "\<And>a. vpc_layer a = vpc_layer (frame a)"
    "\<And>a. profile_line a = profile_line (frame a)"
    "\<And>a. buffer_spin a = buffer_spin (frame a)"
    "\<And>a. progress_visible a = progress_visible (frame a)"
    by (simp_all add: frame_def)
  show "buffer_distance a' = buffer_distance a" "message_log a' = message_log a"
    "analyze_btn a' = analyze_btn a" "vpc_layer a' = vpc_layer a"
    "profile_line a' = profile_line a" "buffer_spin a' = buffer_spin a"
    "progress_visible a' = progress_visible a"
    using assms f by metis+
qed

text \<open>No exception leaves \<^verbatim>\<open>extract_profile_points\<close>: its handler catches them all.\<close>

lemma extract_never_raises: "\<exists>a'. extract_profile_points a = Inr a'"
  by (simp add: extract_profile_points_def Let_def split: option.splits prod.splits)

text \<open>
  Claim C9. After \<^verbatim>\<open>extract_profile_points\<close> has run on a layer and a line, every
  profile point lies within the buffer distance of the line. A readable record that
  lies farther from the line than the buffer distance leaves the analyser as it
  was and raises nothing, and the extraction over all records is the extraction
  over the records without those: they are dropped entirely.
\<close>

theorem buffer_filter:
  "(extract_profile_points a = Inr a' \<and> vpc_layer a = Some l \<and> profile_line a = Some line \<longrightarrow>
      buffer_distance a' = buffer_spin a \<and>
      (\<forall>q\<in>set (profile_points a'). dist_to_line line (pt_x q, pt_y q) \<le> buffer_distance a')) \<and>
   (farther_than line b pd \<longrightarrow> extract_point line b tot pd a0 = (None, a0)) \<and>
   extract_loop line b tot (filter (\<lambda>pd. \<not> farther_than line b pd) recs) a0 =
     extract_loop line b tot recs a0"
proof (intro conjI impI)
  assume h: "extract_profile_points a = Inr a' \<and> vpc_layer a = Some l \<and> profile_line a = Some line"
  let ?a1 = "a\<lparr>progress_visible := True, buffer_distance := buffer_spin a, profile_points := []\<rparr>"
  let ?res = "extract_loop line (buffer_spin a) (line_length line) (records l) ?a1"
  have ins: "inside line (buffer_spin a) (snd ?res)"
    by (rule extract_loop_inside) (simp add: inside_def)
  have fr: "frame (snd ?res) = frame ?a1"
    by (rule extract_loop_frame)
  have bd: "buffer_distance (snd ?res) = buffer_spin a"
    using frame_fields(1) [OF fr] by simp
  from h have pts: "profile_points a' = profile_points (snd ?res)"
    and bd': "buffer_distance a' = buffer_distance (snd ?res)"
    by (auto simp: extract_profile_points_def Let_def split: prod.splits option.splits if_splits)
  from bd bd' show "buffer_distance a' = buffer_spin a" by simp
  from ins pts bd bd' show "\<forall>q\<in>set (profile_points a'). dist_to_line line (pt_x q, pt_y q) \<le> buffer_distance a'"
    by (auto simp: inside_def list_all_iff intro: contains_dist)
next
  assume "farther_than line b pd"
  then show "extract_point line b tot pd a0 = (None, a0)"
    by (auto simp: farther_than_def extract_point_def Let_def far_not_contained
             split: option.splits)
next
  have step: "\<And>pd a. farther_than line b pd \<Longrightarrow> extract_point line b tot pd a = (None, a)"
    by (auto simp: farther_than_def extract_point_def Let_def far_not_contained
             split: option.splits)
  show "extract_loop line b tot (filter (\<lambda>pd. \<not> farther_than line b pd) recs) a0 =
     extract_loop line b tot recs a0"
    by (induction recs arbitrary: a0) (auto simp: step split: prod.splits option.splits)
qed

lemmas geometry_defs =
  buffer_contains_def seg_sqr_distance_def nearest_on_segment_def projection_factor_def
  sqr_dist_def closestVertex_def lineLocatePoint_def segment_measure_def line_length_def
  seg_length_def

lemmas scenario_defs =
  analyzer_on_def get_profile_line_def initial_analyzer_def raw_point_def

text \<open>
  The line from \<open>(0, 0)\<close> to \<open>(100, 0)\<close> with buffer 5: the record at \<open>(10, 2)\<close> is
  kept, the record at \<open>(10, 20)\<close> is dropped.
\<close>

theorem buffer_filter_witness:
  "\<exists>a' l. extract_profile_points
             (analyzer_on 0 100 [raw_point 10 2 5 (Some 50), raw_point 10 20 3 None]) = Inr a' \<and>
     vpc_layer (analyzer_on 0 100 [raw_point 10 2 5 (Some 50), raw_point 10 20 3 None]) = Some l \<and>
     profile_line (analyzer_on 0 100 [raw_point 10 2 5 (Some 50), raw_point 10 20 3 None])
       = Some [(0, 0), (100, 0)] \<and>
     buffer_distance a' = 5 \<and>
     map (\<lambda>q. (pt_x q, pt_y q)) (profile_points a') = [(10, 2)] \<and>
     list_all (\<lambda>q. dist_to_line [(0, 0), (100, 0)] (pt_x q, pt_y q) \<le> buffer_distance a')
       (profile_points a') \<and>
     farther_than [(0, 0), (100, 0)] 5 (raw_point 10 20 3 None) \<and>
     extract_point [(0, 0), (100, 0)] 5 100 (raw_point 10 20 3 None) initial_analyzer
       = (None, initial_analyzer)"
proof -
  let ?A = "analyzer_on 0 100 [raw_point 10 2 5 (Some 50), raw_point 10 20 3 None]"
  let ?line = "[(0, 0), (100, 0)] :: polyline"
  obtain a' where run: "extract_profile_points ?A = Inr a'"
    using extract_never_raises by blast
  have l: "vpc_layer ?A = Some \<lparr>extent = \<lparr>xMinimum = 0, xMaximum = 100, yMinimum = - 10,
      yMaximum = 10\<rparr>, records = [raw_point 10 2 5 (Some 50), raw_point 10 20 3 None]\<rparr>"
    by (simp add: scenario_defs Let_def)
  have line: "profile_line ?A = Some ?line"
    by (simp add: scenario_defs Let_def)
  have pts: "map (\<lambda>q. (pt_x q, pt_y q)) (profile_points a') = [(10, 2)]"
    using run
    by (auto simp: extract_profile_points_def scenario_defs extract_point_def geometry_defs
          py_int_def Let_def)
  have far: "farther_than ?line 5 (raw_point 10 20 3 None)"
    by (simp add: farther_than_def raw_point_def dist_to_line_def seg_sqr_distance_def
          nearest_on_segment_def projection_factor_def sqr_dist_def Let_def real_less_rsqrt)
  have spin: "buffer_spin ?A = 5"
    by (simp add: scenario_defs Let_def)
  from buffer_filter [of ?A a' "the (vpc_layer ?A)" ?line 5 "raw_point 10 20 3 None" 100
        initial_analyzer "[]"]
    run l line pts far spin
  show ?thesis
    by (auto simp: list_all_iff)
qed

text \<open>
  Claim C1 at a failing input. On the line from \<open>(0, 0)\<close> to \<open>(100, 0)\<close> with buffer
  5 the records at \<open>(10, 2)\<close> and \<open>(90, -3)\<close> are accepted with the distances 0 and
  100: the loop locates the vertex nearest to the record
  (\<^verbatim>\<open>lineLocatePoint(closestVertex(...)[0])\<close>), not the record's own position,
  whose arc-length distances are 10 and 90.
\<close>

theorem distance_snaps_to_vertex:
  "map_sum id (\<lambda>a. map distance (profile_points a))
     (extract_profile_points
        (analyzer_on 0 100 [raw_point 10 2 5 (Some 50), raw_point 90 (- 3) 6 None]))
     = Inr [0, 100] \<and>
   project [(0, 0), (100, 0)] (10, 2) = 10 \<and>
   project [(0, 0), (100, 0)] (90, - 3) = 90"
  by (simp add: extract_profile_points_def scenario_defs extract_point_def geometry_defs
        project_def py_int_def sqrt_10000 Let_def)

text \<open>
  On a line of two distinct vertices, as \<^verbatim>\<open>get_profile_line\<close> builds it, the
  distance given to a point is always 0 or the length of the line.
\<close>

lemma two_vertex_distance:
  assumes "A \<noteq> B"
  shows "lineLocatePoint [A, B] (closestVertex [A, B] p) \<in> {0, line_length [A, B]}"
proof -
  have cv: "closestVertex [A, B] p = A \<or> closestVertex [A, B] p = B"
    by (simp add: closestVertex_def Let_def)
  from assms have nz: "sqr_dist A B \<noteq> 0"
    by (cases A, cases B) (auto simp: sqr_dist_def sum_power2_eq_zero_iff power2_eq_square [symmetric])
  have a: "lineLocatePoint [A, B] A = 0"
    using assms by (simp add: lineLocatePoint_def segment_measure_def projection_factor_def Let_def)
  have "(fst B - fst A) * (fst B - fst A) + (snd B - snd A) * (snd B - snd A) = sqr_dist A B"
    by (simp add: sqr_dist_def algebra_simps)
  then have "projection_factor (A, B) B = sqr_dist A B / sqr_dist A B"
    by (simp add: projection_factor_def)
  with nz have pf: "projection_factor (A, B) B = 1"
    by simp
  have b: "lineLocatePoint [A, B] B = line_length [A, B]"
    using assms pf by (simp add: lineLocatePoint_def segment_measure_def line_length_def Let_def)
  from cv a b show ?thesis by auto
qed

text \<open>
  Claim C6, as the code has it. When the raw point source yields no record,
  \<^verbatim>\<open>extract_profile_points\<close> raises nothing: it returns with an empty point list,
  the progress bar hidden and the message that no point was found; the analyse
  button is left as it was.
\<close>

theorem empty_source_no_error:
  assumes "vpc_layer a = Some l" and "records l = []" and "profile_line a = Some line"
  shows "extract_profile_points a =
           Inr (a\<lparr>progress_visible := False, buffer_distance := buffer_spin a,
                  profile_points := [], message_log := message_log a @ [NoPointsFound]\<rparr>)"
  using assms by (simp add: extract_profile_points_def Let_def)

text \<open>
  Claim C6 as stated fails: on the reference line with no record the call returns
  normally, with the message as its only effect.
\<close>

theorem empty_source_returns:
  "extract_profile_points (analyzer_on 0 100 []) =
     Inr ((analyzer_on 0 100 [])\<lparr>message_log := [NoPointsFound]\<rparr>)"
  by (simp add: extract_profile_points_def scenario_defs Let_def)

text \<open>
  A layer without records under a line from \<open>(5, 0)\<close> to \<open>(20, 0)\<close>: the button stays
  disabled when it was disabled, and enabled when it was enabled.
\<close>

theorem empty_source_witness:
  "vpc_layer (analyzer_on 5 20 []) =
     Some \<lparr>extent = \<lparr>xMinimum = 5, xMaximum = 20, yMinimum = - 10, yMaximum = 10\<rparr>,
           records = []\<rparr> \<and>
   profile_line (analyzer_on 5 20 []) = Some [(5, 0), (20, 0)] \<and>
   map_sum id (\<lambda>a. (profile_points a, message_log a, analyze_btn a))
     (extract_profile_points (analyzer_on 5 20 [])) = Inr ([], [NoPointsFound], False) \<and>
   map_sum id (\<lambda>a. (profile_points a, message_log a, analyze_btn a))
     (extract_profile_points ((analyzer_on 5 20 [])\<lparr>analyze_btn := True\<rparr>))
     = Inr ([], [NoPointsFound], True)"
proof -
  let ?L = "\<lparr>extent = \<lparr>xMinimum = 5, xMaximum = 20, yMinimum = - 10, yMaximum = 10\<rparr>,
           records = []\<rparr> :: layer"
  let ?B = "(analyzer_on 5 20 [])\<lparr>analyze_btn := True\<rparr>"
  have l: "vpc_layer (analyzer_on 5 20 []) = Some ?L"
    by (simp add: scenario_defs Let_def)
  have r: "records ?L = []" by simp
  have line: "profile_line (analyzer_on 5 20 []) = Some [(5, 0), (20, 0)]"
    by (simp add: scenario_defs Let_def)
  have l': "vpc_layer ?B = Some ?L" using l by simp
  have line': "profile_line ?B = Some [(5, 0), (20, 0)]" using line by simp
  from empty_source_no_error [OF l r line] empty_source_no_error [OF l' r line'] l line
  show ?thesis
    by (simp add: scenario_defs Let_def)
qed

text \<open>
  Claim C7, as the code has it. No degenerate line is rejected.
  \<^verbatim>\<open>get_profile_line\<close> draws the line through the layer's extent without a
  check, so an extent of width 0 gives two coincident vertices and a line of length
  0; and no exception leaves \<^verbatim>\<open>extract_profile_points\<close>, whatever the line is.
\<close>

theorem degenerate_line_not_rejected:
  "(\<exists>a'. extract_profile_points a = Inr a') \<and>
   (vpc_layer a = Some l \<longrightarrow>
      (\<exists>c. profile_line (get_profile_line a)
              = Some [(xMinimum (extent l), c), (xMaximum (extent l), c)] \<and>
           (xMinimum (extent l) = xMaximum (extent l) \<longrightarrow>
              line_length [(xMinimum (extent l), c), (xMaximum (extent l), c)] = 0)))"
  using extract_never_raises [of a]
  by (auto simp: get_profile_line_def Let_def line_length_def seg_length_def sqr_dist_def)

text \<open>
  Claim C7 as stated fails. On an extent of width 0 the line has length 0; the
  first record in the buffer is appended, the progress computation then divides
  by the length 0, and the handler logs the \<^verbatim>\<open>ZeroDivisionError\<close>: the call
  returns with one point of two in the list.
\<close>

theorem degenerate_line_partial_result:
  "profile_line (analyzer_on 3 3 [raw_point 3 1 7 None, raw_point 3 2 8 None])
     = Some [(3, 0), (3, 0)] \<and>
   line_length [(3, 0), (3, 0)] = 0 \<and>
   extract_profile_points (analyzer_on 3 3 [raw_point 3 1 7 None, raw_point 3 2 8 None]) =
     Inr ((analyzer_on 3 3 [raw_point 3 1 7 None, raw_point 3 2 8 None])\<lparr>
       profile_points := [\<lparr>pt_x = 3, pt_y = 1, pt_z = 7, distance = 0, intensity = None,
         classification = None, rgb = None, original_coords = Some (3, 1, 7)\<rparr>],
       message_log := [ExtractionError ZeroDivisionError]\<rparr>)"
  by (simp add: extract_profile_points_def scenario_defs extract_point_def geometry_defs
        Let_def)

text \<open>A layer whose extent has width 0.\<close>

theorem degenerate_line_witness:
  "vpc_layer (analyzer_on 3 3 []) =
     Some \<lparr>extent = \<lparr>xMinimum = 3, xMaximum = 3, yMinimum = - 10, yMaximum = 10\<rparr>,
           records = []\<rparr> \<and>
   (\<exists>a'. extract_profile_points (analyzer_on 3 3 []) = Inr a') \<and>
   profile_line (get_profile_line (analyzer_on 3 3 [])) = Some [(3, 0), (3, 0)] \<and>
   line_length [(3, 0), (3, 0)] = 0"
proof -
  let ?L = "\<lparr>extent = \<lparr>xMinimum = 3, xMaximum = 3, yMinimum = - 10, yMaximum = 10\<rparr>,
           records = []\<rparr> :: layer"
  have l: "vpc_layer (analyzer_on 3 3 []) = Some ?L"
    by (simp add: scenario_defs Let_def)
  have line: "profile_line (get_profile_line (analyzer_on 3 3 [])) = Some [(3, 0), (3, 0)]"
    by (simp add: scenario_defs Let_def)
  from degenerate_line_not_rejected [of "analyzer_on 3 3 []" ?L] l line show ?thesis
    by auto
qed

lemma extract_loop_append:
  "extract_loop line b tot (xs @ ys) a =
     (case extract_loop line b tot xs a of
        (Some e, a1) \<Rightarrow> (Some e, a1)
      | (None, a1) \<Rightarrow> extract_loop line b tot ys a1)"
  by (induction xs arbitrary: a) (auto split: prod.splits option.splits)

lemma extract_point_well_formed:
  "well_formed pd \<Longrightarrow> tot \<noteq> 0 \<Longrightarrow> fst (extract_point line b tot pd a) = None"
  by (auto simp: well_formed_def extract_point_def Let_def)

lemma extract_loop_well_formed:
  "list_all well_formed good \<Longrightarrow> tot \<noteq> 0 \<Longrightarrow> fst (extract_loop line b tot good a) = None"
proof (induction good arbitrary: a)
  case Nil
  show ?case by simp
next
  case (Cons pd rest)
  then have "fst (extract_point line b tot pd a) = None"
    by (simp add: extract_point_well_formed)
  with Cons show ?case
    by (auto split: prod.splits option.splits)
qed

lemma extract_point_malformed:
  "\<not> well_formed pd \<Longrightarrow>
     extract_point line b tot pd a =
       (Some (KeyError (if X pd = None then ''X'' else ''Y'')), a)"
  by (auto simp: well_formed_def extract_point_def split: option.splits)

lemma malformed_record_stops_loop:
  assumes layer: "vpc_layer a = Some l" and line: "profile_line a = Some line"
    and recs: "records l = good @ bad # rest"
    and good: "list_all well_formed good" and bad: "\<not> well_formed bad"
    and len: "line_length line \<noteq> 0"
  shows "extract_profile_points a =
           Inr ((snd (extract_loop line (buffer_spin a) (line_length line) good
                   (a\<lparr>progress_visible := True, buffer_distance := buffer_spin a,
                      profile_points := []\<rparr>)))
                \<lparr>progress_visible := False,
                 message_log := message_log a
                   @ [ExtractionError (KeyError (if X bad = None then ''X'' else ''Y''))]\<rparr>)"
proof -
  let ?a1 = "a\<lparr>progress_visible := True, buffer_distance := buffer_spin a, profile_points := []\<rparr>"
  let ?b = "buffer_spin a"
  let ?tot = "line_length line"
  obtain e a2 where g: "extract_loop line ?b ?tot good ?a1 = (e, a2)"
    by (cases "extract_loop line ?b ?tot good ?a1")
  with extract_loop_well_formed [OF good len, of line ?b ?a1] have e: "e = None"
    by simp
  have log: "message_log a2 = message_log a"
    using frame_fields(2) [OF extract_loop_frame [of line ?b ?tot good ?a1]] g by simp
  have "extract_loop line ?b ?tot (good @ bad # rest) ?a1 =
          (Some (KeyError (if X bad = None then ''X'' else ''Y'')), a2)"
    using g e extract_point_malformed [OF bad]
    by (simp add: extract_loop_append)
  with layer line recs g log show ?thesis
    by (simp add: extract_profile_points_def Let_def)
qed

lemma missing_z_is_zero:
  assumes "X pd = Some x" and "Y pd = Some y" and "Z pd = None"
    and "buffer_contains line b (x, y)" and "tot \<noteq> 0"
  shows "fst (extract_point line b tot pd a) = None \<and>
         map pt_z (profile_points (snd (extract_point line b tot pd a))) =
           map pt_z (profile_points a) @ [0]"
  using assms by (simp add: extract_point_def Let_def)

text \<open>
  Claim C8, as the code has it. On a line of non-zero length, a record without
  \<^verbatim>\<open>X\<close> or \<^verbatim>\<open>Y\<close> that follows readable records ends the extraction: the
  points accepted before it stay in the list, the handler logs the \<^verbatim>\<open>KeyError\<close>,
  the records after it are not read (the result does not depend on them), no count
  of skipped records is kept and no exception reaches the caller. A record
  without \<^verbatim>\<open>Z\<close> is not skipped either: inside the buffer it is accepted with
  elevation 0.
\<close>

theorem malformed_record_stops_extraction:
  "(vpc_layer a = Some l \<and> profile_line a = Some line \<and> records l = good @ bad # rest \<and>
    list_all well_formed good \<and> \<not> well_formed bad \<and> line_length line \<noteq> 0 \<longrightarrow>
      extract_profile_points a =
        Inr ((snd (extract_loop line (buffer_spin a) (line_length line) good
                (a\<lparr>progress_visible := True, buffer_distance := buffer_spin a,
                   profile_points := []\<rparr>)))
             \<lparr>progress_visible := False,
              message_log := message_log a
                @ [ExtractionError (KeyError (if X bad = None then ''X'' else ''Y''))]\<rparr>)) \<and>
   (X pd = Some x \<and> Y pd = Some y \<and> Z pd = None \<and> buffer_contains line' b (x, y) \<and>
    tot \<noteq> 0 \<longrightarrow>
      fst (extract_point line' b tot pd a0) = None \<and>
      map pt_z (profile_points (snd (extract_point line' b tot pd a0))) =
        map pt_z (profile_points a0) @ [0])"
  using malformed_record_stops_loop [of a l line good bad rest]
    missing_z_is_zero [of pd x y line' b tot a0]
  by blast

text \<open>
  Claim C8 as stated fails: a record without \<^verbatim>\<open>X\<close> in front of a well-formed
  record inside the buffer leaves the point list empty; the well-formed record is
  not processed.
\<close>

theorem missing_key_aborts:
  "extract_profile_points (analyzer_on 0 100 [no_x_record, raw_point 10 2 5 (Some 50)]) =
     Inr ((analyzer_on 0 100 [no_x_record, raw_point 10 2 5 (Some 50)])\<lparr>
       message_log := [ExtractionError (KeyError ''X'')]\<rparr>)"
  by (simp add: extract_profile_points_def scenario_defs extract_point_def no_x_record_def
        Let_def)

text \<open>
  A record without \<^verbatim>\<open>X\<close> between two well-formed records: only the first is
  extracted. A record without \<^verbatim>\<open>Z\<close> at \<open>(10, 2)\<close> is accepted with elevation 0.
\<close>

theorem malformed_record_witness:
  "map_sum id (\<lambda>a. (map distance (profile_points a), message_log a, analyze_btn a))
     (extract_profile_points
        (analyzer_on 0 100 [raw_point 10 2 5 (Some 50), no_x_record, raw_point 90 (- 3) 6 None]))
     = Inr ([0], [ExtractionError (KeyError ''X'')], False) \<and>
   list_all well_formed [raw_point 10 2 5 (Some 50)] \<and> \<not> well_formed no_x_record \<and>
   line_length [(0, 0), (100, 0)] \<noteq> 0 \<and>
   buffer_contains [(0, 0), (100, 0)] 5 (10, 2) \<and>
   extract_point [(0, 0), (100, 0)] 5 100
       \<lparr>X = Some 10, Y = Some 2, Z = None, Intensity = None, Classification = None\<rparr>
       initial_analyzer =
     (None, initial_analyzer\<lparr>profile_points :=
        [\<lparr>pt_x = 10, pt_y = 2, pt_z = 0, distance = 0, intensity = None,
          classification = None, rgb = None, original_coords = Some (10, 2, 0)\<rparr>]\<rparr>)"
proof -
  let ?recs = "[raw_point 10 2 5 (Some 50), no_x_record, raw_point 90 (- 3) 6 None]"
  let ?A = "analyzer_on 0 100 ?recs"
  let ?L = "\<lparr>extent = \<lparr>xMinimum = 0, xMaximum = 100, yMinimum = - 10, yMaximum = 10\<rparr>,
           records = ?recs\<rparr> :: layer"
  let ?pd = "\<lparr>X = Some 10, Y = Some 2, Z = None, Intensity = None, Classification = None\<rparr>
           :: point_data"
  have l: "vpc_layer ?A = Some ?L"
    by (simp add: scenario_defs Let_def)
  have line: "profile_line ?A = Some [(0, 0), (100, 0)]"
    by (simp add: scenario_defs Let_def)
  have recs: "records ?L = [raw_point 10 2 5 (Some 50)] @ no_x_record # [raw_point 90 (- 3) 6 None]"
    by simp
  have good: "list_all well_formed [raw_point 10 2 5 (Some 50)]"
    by (simp add: well_formed_def raw_point_def)
  have bad: "\<not> well_formed no_x_record"
    by (simp add: well_formed_def no_x_record_def)
  have len: "line_length [(0, 0), (100, 0)] \<noteq> 0"
    by (simp add: line_length_def seg_length_def sqr_dist_def)
  have inb: "buffer_contains [(0, 0), (100, 0)] 5 (10, 2)"
    by (simp add: geometry_defs Let_def)
  have step: "extract_point [(0, 0), (100, 0)] 5 100 ?pd initial_analyzer =
     (None, initial_analyzer\<lparr>profile_points :=
        [\<lparr>pt_x = 10, pt_y = 2, pt_z = 0, distance = 0, intensity = None,
          classification = None, rgb = None, original_coords = Some (10, 2, 0)\<rparr>]\<rparr>)"
    by (simp add: extract_point_def geometry_defs initial_analyzer_def py_int_def Let_def)
  from malformed_record_stops_extraction [of ?A ?L "[(0, 0), (100, 0)]"
      "[raw_point 10 2 5 (Some 50)]" no_x_record "[raw_point 90 (- 3) 6 None]"
      ?pd 10 2 "[(0, 0), (100, 0)]" 5 100 initial_analyzer]
    l line recs good bad len inb step
  show ?thesis
    by (simp add: scenario_defs extract_point_def geometry_defs py_int_def no_x_record_def
          Let_def)
qed

end
